theory Spec2Isabelle
  imports Main "HOL-Library.Sublist"
begin

section \<open>The command-line agent of main.go\<close>

text \<open>
  The program is a read-eval-print loop: it reads a line, appends it to the conversation
  as a user message, posts the whole conversation to the Messages API and appends the
  first content block of the reply when that block is text.

  Everything outside the program is explicit here. Standard input is the list of lines
  the scanner will yield; standard output is the list of print calls made so far; the
  library calls whose result the program cannot determine (JSON encoding and decoding,
  building and sending the HTTP request, Unicode case mapping) are fields of an
  environment record, each returning an error or a value as the Go call does.
  Go's \<open>error\<close> is the string that \<open>err.Error()\<close> yields, and a function returning
  a value of type \<open>T\<close> and an error returns \<open>string + T\<close>, \<open>Inl\<close> being the error.
\<close>

subsection \<open>Tools\<close>

text \<open>
  The type parameter \<open>'a\<close> stands for Go's \<open>interface{}\<close>: a decoded JSON value that the
  program stores and passes on but never inspects.
\<close>

record 'a InputSchema =
  Type :: string
  Properties :: "string \<rightharpoonup> 'a"
  Requires :: "string list"

record 'a Tool =
  Name :: string
  Description :: string
  InputSchema :: "'a InputSchema"

subsection \<open>Types of the Messages API\<close>

type_synonym role = string
type_synonym model = string
type_synonym stopReason = string
type_synonym responseType = string

definition User :: role where "User = ''user''"
definition Assistant :: role where "Assistant = ''assistant''"

definition Opus :: model where "Opus = ''claude-3-opus-20240229''"
definition Sonnet :: model where "Sonnet = ''claude-3-sonnet-20240229''"
definition Haiku :: model where "Haiku = ''claude-3-haiku-20240307''"

definition EndTurn :: stopReason where "EndTurn = ''end_turn''"
definition MaxTokens_reason :: stopReason where "MaxTokens_reason = ''max_tokens''"
definition StopSequence_reason :: stopReason where "StopSequence_reason = ''stop_sequence''"

text \<open>
  The stop reasons \<open>MaxTokens\<close> and \<open>StopSequence\<close> carry a suffix here, since \<open>Request\<close> and
  \<open>Response\<close> have fields of those names; the response type \<open>text\<close> is \<open>text_type\<close>, and the
  field \<open>Id\<close> of \<open>ResponseMessage\<close> is \<open>Id_field\<close>.
\<close>

definition text_type :: responseType where "text_type = ''text''"
definition toolUse :: responseType where "toolUse = ''tool_use''"

definition MESSAGES_URL :: string where
  "MESSAGES_URL = ''https://api.anthropic.com/v1/messages''"

definition SYS_PROMPT :: string where
  "SYS_PROMPT =
     [CHR 0x0A, CHR 0x09] @
     ''You are Super Claude, an AI assistant designed to help employees and developers work with Super-Sod's backend microservices. '' @
     [CHR 0x0A, CHR 0x09] @
     ''We will start off by working with the 'go-postal' REST API. Use the tools provided to fulfil user requests.'' @
     [CHR 0x0A, CHR 0x0A, CHR 0x09] @
     ''Give brief responses - we are in dev mode and many conversations are for testing purposes.'' @
     [CHR 0x0A]"

record Message =
  Role :: role
  Content :: string

type_synonym Conversation = "Message list"

record 'a Request =
  Model :: model
  Messages :: Conversation
  MaxTokens :: int
  System :: string
  Tools :: "'a Tool list"

record 'a ResponseMessage =
  Type :: responseType
  Text :: string
  Id_field :: string
  Name :: string
  Input :: 'a

record Usage =
  InputTokens :: int
  OutputTokens :: int

record 'a Response =
  ID :: string
  Type :: string
  Role :: role
  Content :: "'a ResponseMessage list"
  Model :: model
  StopReason :: stopReason
  StopSequence :: string
  Usage :: Usage

subsection \<open>Configuration\<close>

record Config =
  requireDotEnv :: bool
  AnthropicApiKey :: string

definition NewConfig :: "bool \<Rightarrow> Config" where
  "NewConfig r = \<lparr>requireDotEnv = r, AnthropicApiKey = []\<rparr>"

subsection \<open>The world outside the program\<close>

record http_request =
  Method :: string
  URL :: string
  Payload :: string
  Header :: "string \<rightharpoonup> string"

text \<open>
  A response body is a stream: \<open>Data\<close> is what it delivers and \<open>ReadErr\<close> the error it
  ends with, \<open>None\<close> for a clean end of file.
\<close>

record http_body =
  Data :: string
  ReadErr :: "string option"

record http_response =
  StatusCode :: int
  Body :: http_body

definition StatusOK :: int where "StatusOK = 200"

text \<open>
  \<open>client_Do env k req\<close> is what \<open>client.Do\<close> returns for \<open>req\<close> when \<open>k\<close> requests were posted
  before it, so the server may answer every call differently.
  \<open>unicode_ToLower\<close> is \<open>strings.Map(unicode.ToLower, s)\<close>, the path \<open>strings.ToLower\<close> takes
  for a string with a byte outside ASCII.
\<close>

record 'a env =
  unicode_ToLower :: "string \<Rightarrow> string"
  json_Marshal :: "'a Request \<Rightarrow> string + string"
  http_NewRequest :: "string \<Rightarrow> string \<Rightarrow> string \<Rightarrow> string + http_request"
  client_Do :: "nat \<Rightarrow> http_request \<Rightarrow> string + http_response"
  json_Decode :: "http_body \<Rightarrow> string + 'a Response"

text \<open>\<open>io.ReadAll\<close> returns the bytes read and the error that stopped it.\<close>

definition io_ReadAll :: "http_body \<Rightarrow> string \<times> string option" where
  "io_ReadAll b = (Data b, ReadErr b)"

text \<open>The verb \<open>%d\<close> of \<open>fmt\<close>: a decimal numeral, with a minus sign when negative.\<close>

fun digits :: "nat \<Rightarrow> string" where
  "digits n =
     (if n < 10 then [char_of (48 + n)]
      else digits (n div 10) @ [char_of (48 + n mod 10)])"

declare digits.simps [simp del]

definition fmt_d :: "int \<Rightarrow> string" where
  "fmt_d i = (if i < 0 then CHR ''-'' # digits (nat (- i)) else digits (nat i))"

text \<open>
  \<open>strings.ToLower\<close>: a string of ASCII bytes is lowered byte by byte (and returned as it
  is when it has no upper-case letter); any other string goes through the Unicode tables.
\<close>

definition RuneSelf :: nat where "RuneSelf = 128"

definition is_upper :: "char \<Rightarrow> bool" where
  "is_upper c \<longleftrightarrow> (65::nat) \<le> of_char c \<and> of_char c \<le> (90::nat)"

definition lower_byte :: "char \<Rightarrow> char" where
  "lower_byte c = (if is_upper c then char_of ((of_char c :: nat) + 32) else c)"

definition ToLower :: "(string \<Rightarrow> string) \<Rightarrow> string \<Rightarrow> string" where
  "ToLower unicode_lower s =
     (let isASCII = list_all (\<lambda>c. (of_char c :: nat) < RuneSelf) s;
          hasUpper = list_ex is_upper s
      in if isASCII then (if \<not> hasUpper then s else map lower_byte s)
         else unicode_lower s)"

subsection \<open>Request.Post\<close>

text \<open>The four \<open>req.Header.Set\<close> calls, the key coming from the global configuration.\<close>

definition set_headers :: "Config \<Rightarrow> http_request \<Rightarrow> http_request" where
  "set_headers cfg req =
     req\<lparr>Header := (Header req)
            (''Content-Type'' \<mapsto> ''application/json'',
             ''x-api-key'' \<mapsto> AnthropicApiKey cfg,
             ''anthropic-version'' \<mapsto> ''2023-06-01'',
             ''anthropic-beta'' \<mapsto> ''tools-2024-04-04'')\<rparr>"

definition Post :: "'a env \<Rightarrow> Config \<Rightarrow> nat \<Rightarrow> 'a Request \<Rightarrow> string + 'a Response" where
  "Post env cfg k r =
     (case json_Marshal env r of
        Inl err \<Rightarrow> Inl err
      | Inr jsonRequest \<Rightarrow>
          (case http_NewRequest env ''POST'' MESSAGES_URL jsonRequest of
             Inl err \<Rightarrow> Inl err
           | Inr req0 \<Rightarrow>
               (let req = set_headers cfg req0
                in case client_Do env k req of
                     Inl err \<Rightarrow> Inl (''failed to send request: '' @ err)
                   | Inr resp \<Rightarrow>
                       if StatusCode resp \<noteq> StatusOK then
                         (case io_ReadAll (Body resp) of
                            (body, Some err) \<Rightarrow>
                              Inl (''API request failed with status code: '' @ fmt_d (StatusCode resp)
                                   @ '', failed to read response body: '' @ err)
                          | (body, None) \<Rightarrow>
                              Inl (''API request failed with status code: '' @ fmt_d (StatusCode resp)
                                   @ '', response body: '' @ body))
                       else
                         (case json_Decode env (Body resp) of
                            Inl err \<Rightarrow> Inl (''failed to decode response: '' @ err)
                          | Inr respData \<Rightarrow> Inr respData))))"

subsection \<open>The conversation\<close>

definition AppendResponse :: "Conversation \<Rightarrow> 'a ResponseMessage \<Rightarrow> Conversation" where
  "AppendResponse c msg =
     (if ResponseMessage.Type msg = text_type
      then c @ [\<lparr>Message.Role = Assistant, Message.Content = Text msg\<rparr>]
      else c)"

text \<open>
  What the program has printed: \<open>Print\<close> and \<open>Println\<close> with the string they were given,
  and the \<open>Printf\<close> of the reply with its three arguments (the content blocks, which
  \<open>%v\<close> renders, and the two token counts).
\<close>

datatype 'a printed =
    Print string
  | Println string
  | Printf_Claude "'a ResponseMessage list" int int

text \<open>
  The state of a session: \<open>conv\<close> is the conversation \<open>*c\<close>, \<open>stdout\<close> the print calls so
  far and \<open>posted\<close> the requests on which \<open>Post\<close> was called so far, oldest first.
\<close>

record 'a state =
  conv :: Conversation
  stdout :: "'a printed list"
  posted :: "'a Request list"

definition emit :: "'a printed \<Rightarrow> 'a state \<Rightarrow> 'a state" where
  "emit p s = s\<lparr>stdout := stdout s @ [p]\<rparr>"

datatype exit = Returned | Panicked string

text \<open>The request literal that \<open>Converse\<close> builds from the conversation and the tools.\<close>

definition new_request :: "Conversation \<Rightarrow> 'a Tool list \<Rightarrow> 'a Request" where
  "new_request c tools =
     \<lparr>Request.Model = Opus, Messages = c, MaxTokens = 2048, System = SYS_PROMPT, Tools = tools\<rparr>"

text \<open>
  The second half of the loop body (under the comment \<open>// Converse\<close>), for an input line
  that is not the exit token. It yields \<open>None\<close> when the loop goes on and the panic
  message when indexing \<open>resp.Content[0]\<close> is out of range.
\<close>

definition turn :: "'a env \<Rightarrow> Config \<Rightarrow> 'a Tool list \<Rightarrow> string \<Rightarrow> 'a state \<Rightarrow> string option \<times> 'a state" where
  "turn env cfg tools input s =
     (let c1 = conv s @ [\<lparr>Message.Role = User, Message.Content = input\<rparr>];
          req = new_request c1 tools;
          s1 = s\<lparr>conv := c1, posted := posted s @ [req]\<rparr>
      in case Post env cfg (length (posted s)) req of
           Inl err \<Rightarrow> (None, emit (Println (''Error making request: '' @ err)) s1)
         | Inr resp \<Rightarrow>
             (let s2 = emit (Printf_Claude (Response.Content resp)
                               (InputTokens (Usage resp)) (OutputTokens (Usage resp))) s1
              in case Response.Content resp of
                   [] \<Rightarrow> (Some ''runtime error: index out of range [0] with length 0'', s2)
                 | msg # _ \<Rightarrow> (None, s2\<lparr>conv := AppendResponse (conv s2) msg\<rparr>)))"

text \<open>
  The loop of \<open>Converse\<close>. The scanner is the list of lines it has yet to yield:
  \<open>scanner.Scan()\<close> is false when none is left, at the end of the input or at the first
  line it cannot read. The result tells whether \<open>Converse\<close> returned or panicked, and in
  which state.
\<close>

fun Converse :: "'a env \<Rightarrow> Config \<Rightarrow> string list \<Rightarrow> 'a Tool list \<Rightarrow> 'a state \<Rightarrow> exit \<times> 'a state" where
  "Converse env cfg [] tools s = (Returned, emit (Print ''You: '') s)"
| "Converse env cfg (input # scanner) tools s =
     (if ToLower (unicode_ToLower env) input = ''exit''
      then (Returned, emit (Print ''You: '') s)
      else (case turn env cfg tools input (emit (Print ''You: '') s) of
              (Some p, s') \<Rightarrow> (Panicked p, s')
            | (None, s') \<Rightarrow> Converse env cfg scanner tools s'))"

section \<open>Vocabulary of the properties\<close>

text \<open>The two messages the program builds: the user's line and the assistant's text.\<close>

abbreviation user_message :: "string \<Rightarrow> Message" where
  "user_message input \<equiv> \<lparr>Message.Role = User, Message.Content = input\<rparr>"

abbreviation assistant_message :: "string \<Rightarrow> Message" where
  "assistant_message t \<equiv> \<lparr>Message.Role = Assistant, Message.Content = t\<rparr>"

text \<open>
  Two strings are equal ignoring case when they have the same length and at every position
  hold the same byte or the two cases of one ASCII letter.
\<close>

definition is_letter :: "char \<Rightarrow> bool" where
  "is_letter c \<longleftrightarrow> (65::nat) \<le> of_char c \<and> of_char c \<le> (90::nat)
                   \<or> (97::nat) \<le> of_char c \<and> of_char c \<le> (122::nat)"

definition same_letter :: "char \<Rightarrow> char \<Rightarrow> bool" where
  "same_letter c d \<longleftrightarrow>
     c = d \<or> (is_letter c \<and> is_letter d
              \<and> ((of_char c :: nat) + 32 = of_char d \<or> (of_char d :: nat) + 32 = of_char c))"

definition equal_ignoring_case :: "string \<Rightarrow> string \<Rightarrow> bool" where
  "equal_ignoring_case a b = list_all2 same_letter a b"

text \<open>The state in which \<open>main\<close> calls \<open>Converse\<close>: an empty conversation, nothing printed or posted.\<close>

definition start :: "'a state" where
  "start = \<lparr>conv = [], stdout = [], posted = []\<rparr>"

text \<open>
  History is kept in a state when every request posted so far embeds a prefix of the
  conversation, and each request embeds a proper prefix of what the next one embeds.
\<close>

definition history_kept :: "'a state \<Rightarrow> bool" where
  "history_kept s \<longleftrightarrow>
     (\<forall>r \<in> set (posted s). prefix (Messages r) (conv s))
     \<and> sorted_wrt (\<lambda>r r'. strict_prefix (Messages r) (Messages r')) (posted s)"

section \<open>Example sessions\<close>

text \<open>
  Concrete tools, servers and replies on which the properties below are run. In the
  examples a JSON value is an object with string values.
\<close>

type_synonym json_object = "(string \<times> string) list"

definition postal_codes :: "json_object Tool" where
  "postal_codes =
     \<lparr>Tool.Name = ''lookup_postal_code'',
      Description = ''Look up the postal code of a city'',
      InputSchema = \<lparr>InputSchema.Type = ''object'',
                      Properties = [''city'' \<mapsto> [(''type'', ''string'')]],
                      Requires = [''city'']\<rparr>\<rparr>"

definition test_cfg :: Config where
  "test_cfg = \<lparr>requireDotEnv = True, AnthropicApiKey = ''test-key''\<rparr>"

definition server :: "http_response \<Rightarrow> string + 'a Response \<Rightarrow> 'a env" where
  "server resp decoded =
     \<lparr>unicode_ToLower = (\<lambda>s. s),
      json_Marshal = (\<lambda>r. Inr ''{}''),
      http_NewRequest = (\<lambda>m u b. Inr \<lparr>Method = m, URL = u, Payload = b, Header = Map.empty\<rparr>),
      client_Do = (\<lambda>k req. Inr resp),
      json_Decode = (\<lambda>b. decoded)\<rparr>"

definition status_200 :: http_response where
  "status_200 = \<lparr>StatusCode = 200, Body = \<lparr>Data = ''{}'', ReadErr = None\<rparr>\<rparr>"

definition status_500 :: http_response where
  "status_500 = \<lparr>StatusCode = 500, Body = \<lparr>Data = ''overloaded'', ReadErr = None\<rparr>\<rparr>"

definition status_500_cut :: http_response where
  "status_500_cut = \<lparr>StatusCode = 500, Body = \<lparr>Data = ''Overl'', ReadErr = Some ''unexpected EOF''\<rparr>\<rparr>"

definition message_of :: "'a ResponseMessage list \<Rightarrow> 'a Response" where
  "message_of blocks =
     \<lparr>ID = ''msg_01'', Response.Type = ''message'', Response.Role = Assistant,
      Response.Content = blocks, Response.Model = Opus, StopReason = EndTurn,
      StopSequence = [], Usage = \<lparr>InputTokens = 10, OutputTokens = 5\<rparr>\<rparr>"

definition text_block :: "string \<Rightarrow> json_object ResponseMessage" where
  "text_block t = \<lparr>ResponseMessage.Type = text_type, Text = t, Id_field = [],
                   ResponseMessage.Name = [], Input = []\<rparr>"

definition tool_block :: "string \<Rightarrow> string \<Rightarrow> json_object \<Rightarrow> json_object ResponseMessage" where
  "tool_block i n args = \<lparr>ResponseMessage.Type = toolUse, Text = [], Id_field = i,
                          ResponseMessage.Name = n, Input = args\<rparr>"

definition other_block :: "json_object ResponseMessage" where
  "other_block = \<lparr>ResponseMessage.Type = ''thinking'', Text = [], Id_field = [],
                  ResponseMessage.Name = [], Input = []\<rparr>"

definition atlanta :: "json_object ResponseMessage" where
  "atlanta = tool_block ''t1'' ''lookup_postal_code'' [(''city'', ''Atlanta'')]"

definition weather :: "json_object ResponseMessage" where
  "weather = tool_block ''t2'' ''lookup_weather'' [(''city'', ''Atlanta'')]"

definition after_greeting :: "json_object state" where
  "after_greeting =
     \<lparr>conv = [user_message ''Hello there'', assistant_message ''Hi!''],
      stdout = [Print ''You: '', Printf_Claude [text_block ''Hi!''] 10 5],
      posted = [new_request [user_message ''Hello there''] []]\<rparr>"

section \<open>Auxiliary facts\<close>

subsection \<open>Constants\<close>

lemma text_type_neq_toolUse: "text_type \<noteq> toolUse"
  by (simp add: text_type_def toolUse_def)

lemma fmt_d_500: "fmt_d 500 = ''500''"
  by code_simp

lemma sublist_last_part: "sublist d (a @ b @ c @ d)"
  by (metis append.assoc sublist_append_leftI)

subsection \<open>Lower-casing\<close>

lemma lower_byte_same_letter:
  assumes "same_letter c d" and "\<not> is_upper d"
  shows "lower_byte c = d"
proof (cases "c = d")
  case True
  with assms show ?thesis by (simp add: lower_byte_def)
next
  case False
  with assms have l: "is_letter c" "is_letter d"
    and e: "(of_char c :: nat) + 32 = of_char d \<or> (of_char d :: nat) + 32 = of_char c"
    by (auto simp: same_letter_def)
  from l assms(2) have d: "(97::nat) \<le> of_char d" "of_char d \<le> (122::nat)"
    by (auto simp: is_letter_def is_upper_def)
  from e d l(1) have u: "(of_char c :: nat) + 32 = of_char d"
    by (auto simp: is_letter_def)
  with d have "is_upper c" by (simp add: is_upper_def)
  then have "lower_byte c = char_of ((of_char c :: nat) + 32)" by (simp add: lower_byte_def)
  also have "\<dots> = d" by (simp only: u char_of_char)
  finally show ?thesis .
qed

lemma ascii_same_letter:
  assumes "same_letter c d" and "(of_char d :: nat) < RuneSelf"
  shows "(of_char c :: nat) < RuneSelf"
  using assms by (auto simp: same_letter_def is_letter_def RuneSelf_def)

lemma ToLower_equal_ignoring_case:
  assumes "equal_ignoring_case input t"
    and "list_all (\<lambda>c. (of_char c :: nat) < RuneSelf) t"
    and "\<not> list_ex is_upper t"
  shows "ToLower ul input = t"
proof -
  from assms have a: "list_all2 same_letter input t" by (simp add: equal_ignoring_case_def)
  from a assms(2) have ascii: "list_all (\<lambda>c. (of_char c :: nat) < RuneSelf) input"
    by (induction rule: list_all2_induct) (auto intro: ascii_same_letter)
  from a assms(3) have m: "map lower_byte input = t"
    by (induction rule: list_all2_induct) (auto intro: lower_byte_same_letter)
  have n: "\<not> list_ex is_upper input \<Longrightarrow> map lower_byte input = input"
    by (induction input) (auto simp: lower_byte_def)
  from ascii m n show ?thesis by (auto simp: ToLower_def Let_def)
qed

lemma exit_token_plain:
  "list_all (\<lambda>c. (of_char c :: nat) < RuneSelf) ''exit'' \<and> \<not> list_ex is_upper ''exit''"
  by (simp add: RuneSelf_def is_upper_def)

lemma ToLower_hello: "ToLower (\<lambda>s. s) ''Hello there'' = ''hello there''"
  by code_simp

lemma ToLower_again: "ToLower (\<lambda>s. s) ''again'' = ''again''"
  by code_simp

lemma ToLower_think: "ToLower (\<lambda>s. s) ''Think'' = ''think''"
  by code_simp

lemma ToLower_atlanta: "ToLower (\<lambda>s. s) ''Atlanta?'' = ''atlanta?''"
  by code_simp

subsection \<open>One turn\<close>

lemma emit_fields [simp]:
  "conv (emit p s) = conv s" "posted (emit p s) = posted s" "stdout (emit p s) = stdout s @ [p]"
  by (simp_all add: emit_def)

lemma turn_error:
  assumes "Post env cfg (length (posted s)) (new_request (conv s @ [user_message input]) tools) = Inl err"
  shows "turn env cfg tools input s =
           (None, \<lparr>conv = conv s @ [user_message input],
                   stdout = stdout s @ [Println (''Error making request: '' @ err)],
                   posted = posted s @ [new_request (conv s @ [user_message input]) tools]\<rparr>)"
  using assms by (simp add: turn_def Let_def emit_def)

lemma turn_reply:
  assumes "Post env cfg (length (posted s)) (new_request (conv s @ [user_message input]) tools) = Inr resp"
    and "Response.Content resp = msg # rest"
  shows "turn env cfg tools input s =
           (None, \<lparr>conv = AppendResponse (conv s @ [user_message input]) msg,
                   stdout = stdout s @ [Printf_Claude (Response.Content resp)
                               (InputTokens (Usage resp)) (OutputTokens (Usage resp))],
                   posted = posted s @ [new_request (conv s @ [user_message input]) tools]\<rparr>)"
  using assms by (simp add: turn_def Let_def emit_def)

lemma turn_empty:
  assumes "Post env cfg (length (posted s)) (new_request (conv s @ [user_message input]) tools) = Inr resp"
    and "Response.Content resp = []"
  shows "turn env cfg tools input s =
           (Some ''runtime error: index out of range [0] with length 0'',
            \<lparr>conv = conv s @ [user_message input],
             stdout = stdout s @ [Printf_Claude (Response.Content resp)
                               (InputTokens (Usage resp)) (OutputTokens (Usage resp))],
             posted = posted s @ [new_request (conv s @ [user_message input]) tools]\<rparr>)"
  using assms by (simp add: turn_def Let_def emit_def)

lemma turn_result:
  "posted (snd (turn env cfg tools input s)) =
       posted s @ [new_request (conv s @ [user_message input]) tools]
   \<and> prefix (conv s @ [user_message input]) (conv (snd (turn env cfg tools input s)))"
  by (simp add: turn_def Let_def emit_def AppendResponse_def split: sum.splits list.splits)

lemma turn_extends:
  "prefix (conv s) (conv (snd (turn env cfg tools input s)))
   \<and> prefix (posted s) (posted (snd (turn env cfg tools input s)))"
proof -
  have "prefix (conv s @ [user_message input]) (conv (snd (turn env cfg tools input s)))"
    using turn_result by blast
  then have "prefix (conv s) (conv (snd (turn env cfg tools input s)))"
    by (rule append_prefixD)
  then show ?thesis by (simp add: turn_result)
qed

lemma turn_history_kept:
  assumes "history_kept s"
  shows "history_kept (snd (turn env cfg tools input s))"
proof -
  let ?u = "user_message input"
  let ?req = "new_request (conv s @ [?u]) tools"
  let ?s' = "snd (turn env cfg tools input s)"
  have r: "posted ?s' = posted s @ [?req]"
    and p: "prefix (conv s @ [?u]) (conv ?s')"
    using turn_result [of env cfg tools input s] by simp_all
  from assms have a: "\<forall>r \<in> set (posted s). prefix (Messages r) (conv s)"
    and b: "sorted_wrt (\<lambda>r r'. strict_prefix (Messages r) (Messages r')) (posted s)"
    by (simp_all add: history_kept_def)
  have m: "Messages ?req = conv s @ [?u]" by (simp add: new_request_def)
  from a have c: "\<forall>r \<in> set (posted s). strict_prefix (Messages r) (Messages ?req)"
    by (auto simp: m strict_prefix_def prefix_def)
  from b c have d: "sorted_wrt (\<lambda>r r'. strict_prefix (Messages r) (Messages r')) (posted s @ [?req])"
    by (simp add: sorted_wrt_append)
  from p have "prefix (conv s) (conv ?s')" by (rule append_prefixD)
  with a have "\<forall>r \<in> set (posted s). prefix (Messages r) (conv ?s')"
    by (meson prefix_order.trans)
  with p have e: "\<forall>r \<in> set (posted s @ [?req]). prefix (Messages r) (conv ?s')"
    by (simp add: m)
  from d e show ?thesis by (simp add: r history_kept_def)
qed

subsection \<open>The loop\<close>

lemma Converse_unfold:
  "Converse env cfg (input # scanner) tools s =
     (if ToLower (unicode_ToLower env) input = ''exit'' then (Returned, emit (Print ''You: '') s)
      else if fst (turn env cfg tools input (emit (Print ''You: '') s)) = None
      then Converse env cfg scanner tools (snd (turn env cfg tools input (emit (Print ''You: '') s)))
      else (Panicked (the (fst (turn env cfg tools input (emit (Print ''You: '') s)))),
            snd (turn env cfg tools input (emit (Print ''You: '') s))))"
  by (auto split: prod.splits option.splits)

lemma Converse_reply:
  assumes "ToLower (unicode_ToLower env) input \<noteq> ''exit''"
    and "Post env cfg (length (posted s)) (new_request (conv s @ [user_message input]) tools) = Inr resp"
    and "Response.Content resp = msg # rest"
  shows "Converse env cfg (input # scanner) tools s =
         Converse env cfg scanner tools
           \<lparr>conv = AppendResponse (conv s @ [user_message input]) msg,
            stdout = stdout s @ [Print ''You: '', Printf_Claude (Response.Content resp)
                               (InputTokens (Usage resp)) (OutputTokens (Usage resp))],
            posted = posted s @ [new_request (conv s @ [user_message input]) tools]\<rparr>"
proof -
  have "turn env cfg tools input (emit (Print ''You: '') s) =
          (None, \<lparr>conv = AppendResponse (conv s @ [user_message input]) msg,
                  stdout = stdout s @ [Print ''You: '', Printf_Claude (Response.Content resp)
                               (InputTokens (Usage resp)) (OutputTokens (Usage resp))],
                  posted = posted s @ [new_request (conv s @ [user_message input]) tools]\<rparr>)"
    using turn_reply [of env cfg "emit (Print ''You: '') s" input tools resp msg rest] assms(2,3)
    by simp
  with assms(1) show ?thesis by simp
qed

lemma Converse_error:
  assumes "ToLower (unicode_ToLower env) input \<noteq> ''exit''"
    and "Post env cfg (length (posted s)) (new_request (conv s @ [user_message input]) tools) = Inl err"
  shows "Converse env cfg (input # scanner) tools s =
         Converse env cfg scanner tools
           \<lparr>conv = conv s @ [user_message input],
            stdout = stdout s @ [Print ''You: '', Println (''Error making request: '' @ err)],
            posted = posted s @ [new_request (conv s @ [user_message input]) tools]\<rparr>"
proof -
  have "turn env cfg tools input (emit (Print ''You: '') s) =
          (None, \<lparr>conv = conv s @ [user_message input],
                  stdout = stdout s @ [Print ''You: '', Println (''Error making request: '' @ err)],
                  posted = posted s @ [new_request (conv s @ [user_message input]) tools]\<rparr>)"
    using turn_error [of env cfg "emit (Print ''You: '') s" input tools err] assms(2)
    by simp
  with assms(1) show ?thesis by simp
qed

lemma history_kept_emit: "history_kept (emit p s) = history_kept s"
  by (simp add: history_kept_def)

lemma Converse_history_kept:
  "history_kept s \<Longrightarrow> history_kept (snd (Converse env cfg scanner tools s))"
proof (induction scanner arbitrary: s)
  case Nil
  then show ?case by (simp add: history_kept_emit)
next
  case (Cons input scanner)
  let ?t = "turn env cfg tools input (emit (Print ''You: '') s)"
  from Cons.prems have k: "history_kept (snd ?t)"
    by (simp add: turn_history_kept history_kept_emit)
  then have "history_kept (snd (Converse env cfg scanner tools (snd ?t)))"
    by (rule Cons.IH)
  with k Cons.prems show ?case
    by (simp add: Converse_unfold history_kept_emit del: Converse.simps)
qed

lemma Converse_extends:
  "prefix (conv s) (conv (snd (Converse env cfg scanner tools s)))
   \<and> prefix (posted s) (posted (snd (Converse env cfg scanner tools s)))"
proof (induction scanner arbitrary: s)
  case Nil
  show ?case by simp
next
  case (Cons input scanner)
  let ?t = "turn env cfg tools input (emit (Print ''You: '') s)"
  have x: "prefix (conv s) (conv (snd ?t))" "prefix (posted s) (posted (snd ?t))"
    using turn_extends [of "emit (Print ''You: '') s" env cfg tools input] by simp_all
  have y: "prefix (conv (snd ?t)) (conv (snd (Converse env cfg scanner tools (snd ?t))))"
    "prefix (posted (snd ?t)) (posted (snd (Converse env cfg scanner tools (snd ?t))))"
    using Cons.IH [of "snd ?t"] by simp_all
  from x(1) y(1) have c: "prefix (conv s) (conv (snd (Converse env cfg scanner tools (snd ?t))))"
    by (rule prefix_order.trans)
  from x(2) y(2) have p: "prefix (posted s) (posted (snd (Converse env cfg scanner tools (snd ?t))))"
    by (rule prefix_order.trans)
  from x c p show ?case
    by (simp add: Converse_unfold del: Converse.simps)
qed

subsection \<open>The example sessions, run\<close>

lemma Post_server_200 [simp]:
  "Post (server status_200 d) cfg k r =
     (case d of Inl e \<Rightarrow> Inl (''failed to decode response: '' @ e) | Inr x \<Rightarrow> Inr x)"
  by (simp add: Post_def server_def status_200_def StatusOK_def split: sum.splits)

lemma Post_server_500:
  "Post (server status_500 d) cfg k r =
     Inl ''API request failed with status code: 500, response body: overloaded''"
  by (simp add: Post_def server_def status_500_def StatusOK_def io_ReadAll_def fmt_d_500)

lemma Post_server_500_cut:
  "Post (server status_500_cut d) cfg k r =
     Inl ''API request failed with status code: 500, failed to read response body: unexpected EOF''"
  by (simp add: Post_def server_def status_500_cut_def StatusOK_def io_ReadAll_def fmt_d_500)

lemma not_sublist_cut:
  "\<not> sublist ''Overl''
      ''API request failed with status code: 500, failed to read response body: unexpected EOF''"
  by code_simp

lemma Converse_atlanta:
  "Converse (server status_200 (Inr (message_of [atlanta]))) test_cfg [''Atlanta?''] [postal_codes] start =
       (Returned,
        \<lparr>conv = [user_message ''Atlanta?''],
         stdout = [Print ''You: '', Printf_Claude [atlanta] 10 5, Print ''You: ''],
         posted = [new_request [user_message ''Atlanta?''] [postal_codes]]\<rparr>)"
  using ToLower_atlanta text_type_neq_toolUse
  by (simp add: server_def [where resp = status_200] start_def turn_def Let_def emit_def
        Post_server_200 [unfolded server_def] message_of_def atlanta_def tool_block_def
        AppendResponse_def)

lemma Converse_weather:
  "Converse (server status_200 (Inr (message_of [weather]))) test_cfg [''Atlanta?''] [postal_codes] start =
       (Returned,
        \<lparr>conv = [user_message ''Atlanta?''],
         stdout = [Print ''You: '', Printf_Claude [weather] 10 5, Print ''You: ''],
         posted = [new_request [user_message ''Atlanta?''] [postal_codes]]\<rparr>)"
  using ToLower_atlanta text_type_neq_toolUse
  by (simp add: server_def [where resp = status_200] start_def turn_def Let_def emit_def
        Post_server_200 [unfolded server_def] message_of_def weather_def tool_block_def
        AppendResponse_def)

lemma Converse_after_greeting:
  "Converse (server status_200 (Inr (message_of [text_block ''Hi!'']))) test_cfg [''again''] [] after_greeting =
     (Returned,
      \<lparr>conv = [user_message ''Hello there'', assistant_message ''Hi!'',
               user_message ''again'', assistant_message ''Hi!''],
       stdout = [Print ''You: '', Printf_Claude [text_block ''Hi!''] 10 5,
                 Print ''You: '', Printf_Claude [text_block ''Hi!''] 10 5, Print ''You: ''],
       posted = [new_request [user_message ''Hello there''] [],
                 new_request [user_message ''Hello there'', assistant_message ''Hi!'',
                              user_message ''again''] []]\<rparr>)"
  using ToLower_again
  by (simp add: server_def [where resp = status_200] after_greeting_def turn_def Let_def emit_def
        Post_server_200 [unfolded server_def] message_of_def text_block_def AppendResponse_def)

section \<open>Properties of the program\<close>

subsection \<open>Replies that ask for a tool\<close>

text \<open>
  C1, as the program has it. The program has no tool dispatcher. For every reply that
  contains a \<open>tool_use\<close> block, whether or not the tool it names is registered, the turn
  posts exactly one request, prints the content blocks of the reply, appends the user's
  message and, only when the first block is text, one assistant message with that text;
  no tool result is appended and no second request is posted before the next prompt.
\<close>

theorem tool_use_reply_is_not_dispatched:
  assumes "ToLower (unicode_ToLower env) input \<noteq> ''exit''"
    and "Post env cfg (length (posted s)) (new_request (conv s @ [user_message input]) tools) = Inr resp"
    and "b \<in> set (Response.Content resp)"
    and "ResponseMessage.Type b = toolUse"
  shows "Converse env cfg (input # scanner) tools s =
         Converse env cfg scanner tools
           \<lparr>conv = (if ResponseMessage.Type (hd (Response.Content resp)) = text_type
                    then conv s @ [user_message input,
                                   assistant_message (Text (hd (Response.Content resp)))]
                    else conv s @ [user_message input]),
            stdout = stdout s @ [Print ''You: '', Printf_Claude (Response.Content resp)
                               (InputTokens (Usage resp)) (OutputTokens (Usage resp))],
            posted = posted s @ [new_request (conv s @ [user_message input]) tools]\<rparr>"
proof -
  from assms(3) obtain msg rest where c: "Response.Content resp = msg # rest"
    by (cases "Response.Content resp") auto
  from Converse_reply [OF assms(1,2) c] c show ?thesis
    by (simp add: AppendResponse_def)
qed

text \<open>
  A session for C1: the reply is a text block followed by a call of the registered tool;
  the text becomes the assistant message and the call is left alone.
\<close>

theorem tool_use_reply_is_not_dispatched_witness:
  "ToLower (unicode_ToLower (server status_200 (Inr (message_of [text_block ''Let me look.'', atlanta]))))
      ''Atlanta?'' \<noteq> ''exit''
   \<and> Post (server status_200 (Inr (message_of [text_block ''Let me look.'', atlanta]))) test_cfg
        (length (posted (start :: json_object state)))
        (new_request (conv (start :: json_object state) @ [user_message ''Atlanta?'']) [postal_codes])
       = Inr (message_of [text_block ''Let me look.'', atlanta])
   \<and> atlanta \<in> set (Response.Content (message_of [text_block ''Let me look.'', atlanta]))
   \<and> ResponseMessage.Type atlanta = toolUse
   \<and> Converse (server status_200 (Inr (message_of [text_block ''Let me look.'', atlanta]))) test_cfg
        [''Atlanta?''] [postal_codes] start =
       (Returned,
        \<lparr>conv = [user_message ''Atlanta?'', assistant_message ''Let me look.''],
         stdout = [Print ''You: '', Printf_Claude [text_block ''Let me look.'', atlanta] 10 5,
                   Print ''You: ''],
         posted = [new_request [user_message ''Atlanta?''] [postal_codes]]\<rparr>)"
proof -
  let ?env = "server status_200 (Inr (message_of [text_block ''Let me look.'', atlanta]))"
  have 1: "ToLower (unicode_ToLower ?env) ''Atlanta?'' \<noteq> ''exit''"
    by (simp add: server_def ToLower_atlanta)
  have 2: "Post ?env test_cfg (length (posted (start :: json_object state)))
        (new_request (conv (start :: json_object state) @ [user_message ''Atlanta?'']) [postal_codes])
       = Inr (message_of [text_block ''Let me look.'', atlanta])"
    by simp
  have 3: "atlanta \<in> set (Response.Content (message_of [text_block ''Let me look.'', atlanta]))"
    by (simp add: message_of_def)
  have 4: "ResponseMessage.Type atlanta = toolUse"
    by (simp add: atlanta_def tool_block_def)
  from tool_use_reply_is_not_dispatched [OF 1 2 3 4, of "[]"]
  have "Converse ?env test_cfg [''Atlanta?''] [postal_codes] start =
       (Returned,
        \<lparr>conv = [user_message ''Atlanta?'', assistant_message ''Let me look.''],
         stdout = [Print ''You: '', Printf_Claude [text_block ''Let me look.'', atlanta] 10 5,
                   Print ''You: ''],
         posted = [new_request [user_message ''Atlanta?''] [postal_codes]]\<rparr>)"
    by (simp add: start_def message_of_def text_block_def emit_def)
  with 1 2 3 4 show ?thesis by blast
qed

text \<open>
  C1 as stated fails. The tool \<open>lookup_postal_code\<close> is registered and the reply is one
  call of it with id \<open>t1\<close>; the session ends with the user's message alone in the
  conversation and a single request posted, the blocks having been printed at once.
\<close>

theorem registered_tool_use_counterexample:
  "ResponseMessage.Type atlanta = toolUse
   \<and> ResponseMessage.Name atlanta \<in> Tool.Name ` set [postal_codes]
   \<and> Converse (server status_200 (Inr (message_of [atlanta]))) test_cfg [''Atlanta?''] [postal_codes] start =
       (Returned,
        \<lparr>conv = [user_message ''Atlanta?''],
         stdout = [Print ''You: '', Printf_Claude [atlanta] 10 5, Print ''You: ''],
         posted = [new_request [user_message ''Atlanta?''] [postal_codes]]\<rparr>)"
  by (simp add: Converse_atlanta del: Converse.simps)
     (simp add: atlanta_def tool_block_def postal_codes_def)

text \<open>
  C2, as the program has it. A \<open>tool_use\<close> block naming a tool that is not registered is
  not dispatched and yields no tool result: \<open>AppendResponse\<close> leaves the conversation as it
  is, and when the block comes first in a reply the turn appends the user's message only,
  does not panic, and the loop goes on to the next prompt.
\<close>

theorem unknown_tool_gets_no_tool_result:
  assumes "ResponseMessage.Type b = toolUse"
    and "ResponseMessage.Name b \<notin> Tool.Name ` set tools"
    and "ToLower (unicode_ToLower env) input \<noteq> ''exit''"
    and "Post env cfg (length (posted s)) (new_request (conv s @ [user_message input]) tools) = Inr resp"
    and "Response.Content resp = b # rest"
  shows "AppendResponse c b = c
       \<and> fst (turn env cfg tools input (emit (Print ''You: '') s)) = None
       \<and> Converse env cfg (input # scanner) tools s =
         Converse env cfg scanner tools
           \<lparr>conv = conv s @ [user_message input],
            stdout = stdout s @ [Print ''You: '', Printf_Claude (Response.Content resp)
                               (InputTokens (Usage resp)) (OutputTokens (Usage resp))],
            posted = posted s @ [new_request (conv s @ [user_message input]) tools]\<rparr>"
proof -
  have a: "\<And>c. AppendResponse c b = c"
    using assms(1) text_type_neq_toolUse by (simp add: AppendResponse_def)
  have t: "fst (turn env cfg tools input (emit (Print ''You: '') s)) = None"
    using turn_reply [of env cfg "emit (Print ''You: '') s" input tools resp b rest] assms(4,5)
    by simp
  from Converse_reply [OF assms(3,4,5)] a t show ?thesis by simp
qed

text \<open>
  A session for C2: the reply calls \<open>lookup_weather\<close>, which is not registered, and then
  holds a text block; neither reaches the conversation.
\<close>

theorem unknown_tool_gets_no_tool_result_witness:
  "ResponseMessage.Type weather = toolUse
   \<and> ResponseMessage.Name weather \<notin> Tool.Name ` set [postal_codes]
   \<and> ToLower (unicode_ToLower (server status_200 (Inr (message_of [weather, text_block ''Sunny'']))))
        ''Atlanta?'' \<noteq> ''exit''
   \<and> Post (server status_200 (Inr (message_of [weather, text_block ''Sunny'']))) test_cfg
        (length (posted (start :: json_object state)))
        (new_request (conv (start :: json_object state) @ [user_message ''Atlanta?'']) [postal_codes])
       = Inr (message_of [weather, text_block ''Sunny''])
   \<and> Converse (server status_200 (Inr (message_of [weather, text_block ''Sunny'']))) test_cfg
        [''Atlanta?''] [postal_codes] start =
       (Returned,
        \<lparr>conv = [user_message ''Atlanta?''],
         stdout = [Print ''You: '', Printf_Claude [weather, text_block ''Sunny''] 10 5, Print ''You: ''],
         posted = [new_request [user_message ''Atlanta?''] [postal_codes]]\<rparr>)"
proof -
  let ?env = "server status_200 (Inr (message_of [weather, text_block ''Sunny'']))"
  have 1: "ResponseMessage.Type weather = toolUse"
    by (simp add: weather_def tool_block_def)
  have 2: "ResponseMessage.Name weather \<notin> Tool.Name ` set [postal_codes]"
    by (simp add: weather_def tool_block_def postal_codes_def)
  have 3: "ToLower (unicode_ToLower ?env) ''Atlanta?'' \<noteq> ''exit''"
    by (simp add: server_def ToLower_atlanta)
  have 4: "Post ?env test_cfg (length (posted (start :: json_object state)))
        (new_request (conv (start :: json_object state) @ [user_message ''Atlanta?'']) [postal_codes])
       = Inr (message_of [weather, text_block ''Sunny''])"
    by simp
  have 5: "Response.Content (message_of [weather, text_block ''Sunny'']) = weather # [text_block ''Sunny'']"
    by (simp add: message_of_def)
  from unknown_tool_gets_no_tool_result [OF 1 2 3 4 5, of "[]" "[]"]
  have "Converse ?env test_cfg [''Atlanta?''] [postal_codes] start =
       (Returned,
        \<lparr>conv = [user_message ''Atlanta?''],
         stdout = [Print ''You: '', Printf_Claude [weather, text_block ''Sunny''] 10 5, Print ''You: ''],
         posted = [new_request [user_message ''Atlanta?''] [postal_codes]]\<rparr>)"
    by (simp add: start_def message_of_def emit_def)
  with 1 2 3 4 show ?thesis by blast
qed

text \<open>
  C2 as stated fails. The reply is one call of the unregistered \<open>lookup_weather\<close>; when the
  session ends the conversation holds the user's message and nothing else, so no failure
  result was fed back, and no further request was posted.
\<close>

theorem unknown_tool_counterexample:
  "ResponseMessage.Type weather = toolUse
   \<and> ResponseMessage.Name weather \<notin> Tool.Name ` set [postal_codes]
   \<and> Converse (server status_200 (Inr (message_of [weather]))) test_cfg [''Atlanta?''] [postal_codes] start =
       (Returned,
        \<lparr>conv = [user_message ''Atlanta?''],
         stdout = [Print ''You: '', Printf_Claude [weather] 10 5, Print ''You: ''],
         posted = [new_request [user_message ''Atlanta?''] [postal_codes]]\<rparr>)"
  by (simp add: Converse_weather del: Converse.simps)
     (simp add: weather_def tool_block_def postal_codes_def)

subsection \<open>Text replies and transport errors\<close>

text \<open>
  C3. When the reply was decoded and its content is a non-empty list of text blocks, the
  turn appends exactly one assistant message, holding the text of the first block, after
  the user's message, and the loop goes on to the next prompt.
\<close>

theorem text_reply_appends_one_assistant_message:
  assumes "ToLower (unicode_ToLower env) input \<noteq> ''exit''"
    and "Post env cfg (length (posted s)) (new_request (conv s @ [user_message input]) tools) = Inr resp"
    and "Response.Content resp \<noteq> []"
    and "\<forall>b \<in> set (Response.Content resp). ResponseMessage.Type b = text_type"
  shows "Converse env cfg (input # scanner) tools s =
         Converse env cfg scanner tools
           \<lparr>conv = conv s @ [user_message input, assistant_message (Text (hd (Response.Content resp)))],
            stdout = stdout s @ [Print ''You: '', Printf_Claude (Response.Content resp)
                               (InputTokens (Usage resp)) (OutputTokens (Usage resp))],
            posted = posted s @ [new_request (conv s @ [user_message input]) tools]\<rparr>"
proof -
  from assms(3) obtain msg rest where c: "Response.Content resp = msg # rest"
    by (cases "Response.Content resp") auto
  with assms(4) have t: "ResponseMessage.Type msg = text_type" by simp
  from Converse_reply [OF assms(1,2) c] c t show ?thesis
    by (simp add: AppendResponse_def)
qed

text \<open>A session for C3, with no tool registered: one line, one text reply, end of input.\<close>

theorem text_reply_appends_one_assistant_message_witness:
  "ToLower (unicode_ToLower (server status_200 (Inr (message_of [text_block ''Hi!'']))))
      ''Hello there'' \<noteq> ''exit''
   \<and> Post (server status_200 (Inr (message_of [text_block ''Hi!'']))) test_cfg
        (length (posted (start :: json_object state)))
        (new_request (conv (start :: json_object state) @ [user_message ''Hello there'']) [])
       = Inr (message_of [text_block ''Hi!''])
   \<and> Response.Content (message_of [text_block ''Hi!'']) \<noteq> []
   \<and> list_all (\<lambda>b. ResponseMessage.Type b = text_type) (Response.Content (message_of [text_block ''Hi!'']))
   \<and> Converse (server status_200 (Inr (message_of [text_block ''Hi!'']))) test_cfg
        [''Hello there''] [] start =
       (Returned,
        \<lparr>conv = [user_message ''Hello there'', assistant_message ''Hi!''],
         stdout = [Print ''You: '', Printf_Claude [text_block ''Hi!''] 10 5, Print ''You: ''],
         posted = [new_request [user_message ''Hello there''] []]\<rparr>)"
proof -
  let ?env = "server status_200 (Inr (message_of [text_block ''Hi!'']))"
  have 1: "ToLower (unicode_ToLower ?env) ''Hello there'' \<noteq> ''exit''"
    by (simp add: server_def ToLower_hello)
  have 2: "Post ?env test_cfg (length (posted (start :: json_object state)))
        (new_request (conv (start :: json_object state) @ [user_message ''Hello there'']) [])
       = Inr (message_of [text_block ''Hi!''])"
    by simp
  have 3: "Response.Content (message_of [text_block ''Hi!'']) \<noteq> []"
    by (simp add: message_of_def)
  have 4: "\<forall>b \<in> set (Response.Content (message_of [text_block ''Hi!''])). ResponseMessage.Type b = text_type"
    by (simp add: message_of_def text_block_def)
  from text_reply_appends_one_assistant_message [OF 1 2 3 4, of "[]"]
  have "Converse ?env test_cfg [''Hello there''] [] start =
       (Returned,
        \<lparr>conv = [user_message ''Hello there'', assistant_message ''Hi!''],
         stdout = [Print ''You: '', Printf_Claude [text_block ''Hi!''] 10 5, Print ''You: ''],
         posted = [new_request [user_message ''Hello there''] []]\<rparr>)"
    by (simp add: start_def message_of_def text_block_def emit_def)
  with 1 2 3 4 show ?thesis by (simp only: list_all_iff) blast
qed

text \<open>
  C4. When \<open>Post\<close> returns an error (the request could not be sent, the status was not 200,
  or the body could not be decoded), the turn prints the error, appends no assistant
  message, keeps the user's message it had appended, and the loop goes on to the next line.
\<close>

theorem transport_error_keeps_user_message:
  assumes "ToLower (unicode_ToLower env) input \<noteq> ''exit''"
    and "Post env cfg (length (posted s)) (new_request (conv s @ [user_message input]) tools) = Inl err"
  shows "Converse env cfg (input # scanner) tools s =
         Converse env cfg scanner tools
           \<lparr>conv = conv s @ [user_message input],
            stdout = stdout s @ [Print ''You: '', Println (''Error making request: '' @ err)],
            posted = posted s @ [new_request (conv s @ [user_message input]) tools]\<rparr>"
  using assms by (rule Converse_error)

text \<open>
  A session for C4: the server answers every request with status 500. Both lines stay in
  the conversation, each is followed by the printed error, and the second line is read
  after the first one failed.
\<close>

theorem transport_error_keeps_user_message_witness:
  "ToLower (unicode_ToLower (server status_500 (Inl ''unused'') :: json_object env)) ''Hello there'' \<noteq> ''exit''
   \<and> Post (server status_500 (Inl ''unused'') :: json_object env) test_cfg
        (length (posted (start :: json_object state)))
        (new_request (conv (start :: json_object state) @ [user_message ''Hello there'']) [postal_codes])
       = Inl ''API request failed with status code: 500, response body: overloaded''
   \<and> Converse (server status_500 (Inl ''unused'')) test_cfg [''Hello there'', ''again''] [postal_codes] start =
       (Returned,
        \<lparr>conv = [user_message ''Hello there'', user_message ''again''],
         stdout = [Print ''You: '',
                   Println ''Error making request: API request failed with status code: 500, response body: overloaded'',
                   Print ''You: '',
                   Println ''Error making request: API request failed with status code: 500, response body: overloaded'',
                   Print ''You: ''],
         posted = [new_request [user_message ''Hello there''] [postal_codes],
                   new_request [user_message ''Hello there'', user_message ''again''] [postal_codes]]\<rparr>)"
proof -
  let ?env = "server status_500 (Inl ''unused'') :: json_object env"
  have l: "ToLower (unicode_ToLower ?env) ''Hello there'' \<noteq> ''exit''"
    by (simp add: server_def ToLower_hello)
  have p: "Post ?env test_cfg (length (posted (start :: json_object state)))
         (new_request (conv (start :: json_object state) @ [user_message ''Hello there'']) [postal_codes])
       = Inl ''API request failed with status code: 500, response body: overloaded''"
    by (rule Post_server_500)
  have l2: "ToLower (unicode_ToLower ?env) ''again'' \<noteq> ''exit''"
    by (simp add: server_def ToLower_again)
  note step1 = transport_error_keeps_user_message [OF l p, of "[''again'']"]
  have "Converse ?env test_cfg [''Hello there'', ''again''] [postal_codes] start =
       Converse ?env test_cfg [''again''] [postal_codes]
         \<lparr>conv = [user_message ''Hello there''],
          stdout = [Print ''You: '',
                   Println ''Error making request: API request failed with status code: 500, response body: overloaded''],
          posted = [new_request [user_message ''Hello there''] [postal_codes]]\<rparr>"
    using step1 by (simp add: start_def)
  also have "\<dots> = (Returned,
        \<lparr>conv = [user_message ''Hello there'', user_message ''again''],
         stdout = [Print ''You: '',
                   Println ''Error making request: API request failed with status code: 500, response body: overloaded'',
                   Print ''You: '',
                   Println ''Error making request: API request failed with status code: 500, response body: overloaded'',
                   Print ''You: ''],
         posted = [new_request [user_message ''Hello there''] [postal_codes],
                   new_request [user_message ''Hello there'', user_message ''again''] [postal_codes]]\<rparr>)"
    using l2 by (simp add: Post_server_500 turn_def emit_def Let_def)
  finally show ?thesis using l p by blast
qed

subsection \<open>The conversation only grows\<close>

text \<open>
  C5. Whatever the lines read and whatever the server answers, a session only extends
  the conversation and the list of posted requests: what was there before is a prefix of
  what is there after. Every request posted embeds a prefix of the final conversation,
  in the order of appending, and each request embeds a proper prefix of what the next one
  embeds; so no message is edited, moved or removed once appended.
\<close>

theorem conversation_is_append_only:
  assumes "history_kept s"
  shows "prefix (conv s) (conv (snd (Converse env cfg scanner tools s)))
       \<and> prefix (posted s) (posted (snd (Converse env cfg scanner tools s)))
       \<and> (\<forall>r \<in> set (posted (snd (Converse env cfg scanner tools s))).
             prefix (Messages r) (conv (snd (Converse env cfg scanner tools s))))
       \<and> sorted_wrt (\<lambda>r r'. strict_prefix (Messages r) (Messages r'))
             (posted (snd (Converse env cfg scanner tools s)))"
proof -
  have "history_kept (snd (Converse env cfg scanner tools s))"
    using assms by (rule Converse_history_kept)
  then show ?thesis
    using Converse_extends [of s env cfg scanner tools] by (simp add: history_kept_def)
qed

text \<open>
  A session for C5, started after one exchange: the second request embeds the first
  exchange followed by the new line, and the final conversation extends both requests.
\<close>

theorem conversation_is_append_only_witness:
  "history_kept after_greeting
   \<and> prefix (conv after_greeting)
        (conv (snd (Converse (server status_200 (Inr (message_of [text_block ''Hi!'']))) test_cfg
                      [''again''] [] after_greeting)))
   \<and> map Messages (posted (snd (Converse (server status_200 (Inr (message_of [text_block ''Hi!'']))) test_cfg
                      [''again''] [] after_greeting))) =
       [[user_message ''Hello there''],
        [user_message ''Hello there'', assistant_message ''Hi!'', user_message ''again'']]
   \<and> conv (snd (Converse (server status_200 (Inr (message_of [text_block ''Hi!'']))) test_cfg
                      [''again''] [] after_greeting)) =
       [user_message ''Hello there'', assistant_message ''Hi!'',
        user_message ''again'', assistant_message ''Hi!'']"
proof -
  have h: "history_kept after_greeting"
    by (simp add: history_kept_def after_greeting_def new_request_def)
  from conversation_is_append_only
    [OF h, of "server status_200 (Inr (message_of [text_block ''Hi!'']))" test_cfg "[''again'']" "[]"]
  have "prefix (conv after_greeting)
        (conv (snd (Converse (server status_200 (Inr (message_of [text_block ''Hi!'']))) test_cfg
                      [''again''] [] after_greeting)))"
    by blast
  with h show ?thesis
    by (simp add: Converse_after_greeting new_request_def del: Converse.simps)
qed

subsection \<open>Leaving the loop\<close>

text \<open>
  C6. A line that equals \<open>exit\<close> ignoring case ends the session at once: \<open>Converse\<close>
  returns having printed only the prompt, with no message appended and no request posted,
  and the lines after it are not read.
\<close>

theorem exit_token_ends_session:
  assumes "equal_ignoring_case input ''exit''"
  shows "Converse env cfg (input # scanner) tools s =
           (Returned, s\<lparr>stdout := stdout s @ [Print ''You: '']\<rparr>)
       \<and> conv (snd (Converse env cfg (input # scanner) tools s)) = conv s
       \<and> posted (snd (Converse env cfg (input # scanner) tools s)) = posted s"
proof -
  have "ToLower (unicode_ToLower env) input = ''exit''"
    using assms exit_token_plain by (intro ToLower_equal_ignoring_case) simp_all
  then show ?thesis by (simp add: emit_def)
qed

text \<open>A session for C6: the line \<open>ExIt\<close>, with another line waiting behind it.\<close>

theorem exit_token_ends_session_witness:
  "equal_ignoring_case ''ExIt'' ''exit''
   \<and> Converse (server status_200 (Inr (message_of [text_block ''Hi!'']))) test_cfg
        [''ExIt'', ''Hello there''] [postal_codes] start
       = (Returned, \<lparr>conv = [], stdout = [Print ''You: ''], posted = []\<rparr>)"
proof -
  have e: "equal_ignoring_case ''ExIt'' ''exit''"
    by (simp add: equal_ignoring_case_def same_letter_def is_letter_def)
  from exit_token_ends_session
    [OF e, of "server status_200 (Inr (message_of [text_block ''Hi!'']))" test_cfg
       "[''Hello there'']" "[postal_codes]" start]
  have "Converse (server status_200 (Inr (message_of [text_block ''Hi!'']))) test_cfg
        [''ExIt'', ''Hello there''] [postal_codes] start
       = (Returned, \<lparr>conv = [], stdout = [Print ''You: ''], posted = []\<rparr>)"
    by (simp add: start_def del: Converse.simps)
  with e show ?thesis by blast
qed

subsection \<open>Blocks the program does not interpret\<close>

text \<open>
  C7. A content block whose type is neither \<open>text\<close> nor \<open>tool_use\<close> is a no-op:
  \<open>AppendResponse\<close> leaves the conversation as it is, and a decoded reply that contains
  such a block raises no panic; the turn has the effect of the reply's first block alone
  and the loop goes on to the next prompt.
\<close>

theorem unrecognized_block_is_ignored:
  assumes "ToLower (unicode_ToLower env) input \<noteq> ''exit''"
    and "Post env cfg (length (posted s)) (new_request (conv s @ [user_message input]) tools) = Inr resp"
    and "b \<in> set (Response.Content resp)"
    and "ResponseMessage.Type b \<noteq> text_type"
    and "ResponseMessage.Type b \<noteq> toolUse"
  shows "AppendResponse c b = c
       \<and> fst (turn env cfg tools input (emit (Print ''You: '') s)) = None
       \<and> Converse env cfg (input # scanner) tools s =
         Converse env cfg scanner tools
           \<lparr>conv = AppendResponse (conv s @ [user_message input]) (hd (Response.Content resp)),
            stdout = stdout s @ [Print ''You: '', Printf_Claude (Response.Content resp)
                               (InputTokens (Usage resp)) (OutputTokens (Usage resp))],
            posted = posted s @ [new_request (conv s @ [user_message input]) tools]\<rparr>"
proof -
  from assms(3) obtain msg rest where c: "Response.Content resp = msg # rest"
    by (cases "Response.Content resp") auto
  have 1: "AppendResponse c b = c"
    using assms(4) by (simp add: AppendResponse_def)
  have 2: "fst (turn env cfg tools input (emit (Print ''You: '') s)) = None"
    using turn_reply [of env cfg "emit (Print ''You: '') s" input tools resp msg rest] assms(2) c
    by simp
  from Converse_reply [OF assms(1,2) c] 1 2 c show ?thesis by simp
qed

text \<open>A session for C7: the reply is a single block of type \<open>thinking\<close>.\<close>

theorem unrecognized_block_is_ignored_witness:
  "ToLower (unicode_ToLower (server status_200 (Inr (message_of [other_block])))) ''Think'' \<noteq> ''exit''
   \<and> Post (server status_200 (Inr (message_of [other_block]))) test_cfg
        (length (posted (start :: json_object state)))
        (new_request (conv (start :: json_object state) @ [user_message ''Think'']) [postal_codes])
       = Inr (message_of [other_block])
   \<and> other_block \<in> set (Response.Content (message_of [other_block]))
   \<and> ResponseMessage.Type other_block \<noteq> text_type
   \<and> ResponseMessage.Type other_block \<noteq> toolUse
   \<and> Converse (server status_200 (Inr (message_of [other_block]))) test_cfg [''Think''] [postal_codes] start =
       (Returned,
        \<lparr>conv = [user_message ''Think''],
         stdout = [Print ''You: '', Printf_Claude [other_block] 10 5, Print ''You: ''],
         posted = [new_request [user_message ''Think''] [postal_codes]]\<rparr>)"
proof -
  let ?env = "server status_200 (Inr (message_of [other_block]))"
  have 1: "ToLower (unicode_ToLower ?env) ''Think'' \<noteq> ''exit''"
    by (simp add: server_def ToLower_think)
  have 2: "Post ?env test_cfg (length (posted (start :: json_object state)))
        (new_request (conv (start :: json_object state) @ [user_message ''Think'']) [postal_codes])
       = Inr (message_of [other_block])"
    by simp
  have 3: "other_block \<in> set (Response.Content (message_of [other_block]))"
    by (simp add: message_of_def)
  have 4: "ResponseMessage.Type other_block \<noteq> text_type"
    by (simp add: other_block_def text_type_def)
  have 5: "ResponseMessage.Type other_block \<noteq> toolUse"
    by (simp add: other_block_def toolUse_def)
  from unrecognized_block_is_ignored [OF 1 2 3 4 5, of "[]" "[]"]
  have "Converse ?env test_cfg [''Think''] [postal_codes] start =
       (Returned,
        \<lparr>conv = [user_message ''Think''],
         stdout = [Print ''You: '', Printf_Claude [other_block] 10 5, Print ''You: ''],
         posted = [new_request [user_message ''Think''] [postal_codes]]\<rparr>)"
    using 4 by (simp add: start_def message_of_def AppendResponse_def emit_def)
  with 1 2 3 4 5 show ?thesis by blast
qed

subsection \<open>Request.Post and the status code\<close>

text \<open>
  C8, as the program has it. When the server replied with a status other than 200 (so for
  every status outside 2xx), \<open>Post\<close> returns an error and no response. The message holds
  the status code; it holds the body when the body was read to its end, and the read
  error in place of the body when reading it failed.
\<close>

theorem Post_fails_unless_status_OK:
  assumes "json_Marshal env r = Inr payload"
    and "http_NewRequest env ''POST'' MESSAGES_URL payload = Inr req0"
    and "client_Do env k (set_headers cfg req0) = Inr resp"
    and "StatusCode resp \<noteq> 200"
  shows "\<exists>msg. Post env cfg k r = Inl msg
           \<and> sublist (fmt_d (StatusCode resp)) msg
           \<and> (case ReadErr (Body resp) of
                 None \<Rightarrow> sublist (Data (Body resp)) msg
               | Some e \<Rightarrow> sublist e msg)"
proof (cases "ReadErr (Body resp)")
  case None
  let ?msg = "''API request failed with status code: '' @ fmt_d (StatusCode resp)
                @ '', response body: '' @ Data (Body resp)"
  from assms None have "Post env cfg k r = Inl ?msg"
    by (simp add: Post_def io_ReadAll_def StatusOK_def)
  moreover have "sublist (fmt_d (StatusCode resp)) ?msg"
    by (rule sublist_appendI)
  moreover have "sublist (Data (Body resp)) ?msg"
    by (rule sublist_last_part)
  ultimately show ?thesis using None by simp
next
  case (Some e)
  let ?msg = "''API request failed with status code: '' @ fmt_d (StatusCode resp)
                @ '', failed to read response body: '' @ e"
  from assms Some have "Post env cfg k r = Inl ?msg"
    by (simp add: Post_def io_ReadAll_def StatusOK_def)
  moreover have "sublist (fmt_d (StatusCode resp)) ?msg"
    by (rule sublist_appendI)
  moreover have "sublist e ?msg"
    by (rule sublist_last_part)
  ultimately show ?thesis using Some by simp
qed

text \<open>A reply for C8: status 500 with the body \<open>overloaded\<close>, read to its end.\<close>

theorem Post_fails_unless_status_OK_witness:
  "json_Marshal (server status_500 (Inl ''unused'') :: json_object env)
       (new_request [user_message ''Hello there''] [postal_codes]) = Inr ''{}''
   \<and> http_NewRequest (server status_500 (Inl ''unused'') :: json_object env) ''POST'' MESSAGES_URL ''{}''
       = Inr \<lparr>Method = ''POST'', URL = MESSAGES_URL, Payload = ''{}'', Header = Map.empty\<rparr>
   \<and> client_Do (server status_500 (Inl ''unused'') :: json_object env) 0
        (set_headers test_cfg \<lparr>Method = ''POST'', URL = MESSAGES_URL, Payload = ''{}'', Header = Map.empty\<rparr>)
       = Inr status_500
   \<and> StatusCode status_500 \<noteq> 200
   \<and> Post (server status_500 (Inl ''unused'') :: json_object env) test_cfg 0
        (new_request [user_message ''Hello there''] [postal_codes])
       = Inl ''API request failed with status code: 500, response body: overloaded''
   \<and> sublist (Data (Body status_500)) ''API request failed with status code: 500, response body: overloaded''"
proof -
  let ?env = "server status_500 (Inl ''unused'') :: json_object env"
  let ?r = "new_request [user_message ''Hello there''] [postal_codes] :: json_object Request"
  let ?req0 = "\<lparr>Method = ''POST'', URL = MESSAGES_URL, Payload = ''{}'', Header = Map.empty\<rparr>"
  have 1: "json_Marshal ?env ?r = Inr ''{}''" by (simp add: server_def)
  have 2: "http_NewRequest ?env ''POST'' MESSAGES_URL ''{}'' = Inr ?req0" by (simp add: server_def)
  have 3: "client_Do ?env 0 (set_headers test_cfg ?req0) = Inr status_500" by (simp add: server_def)
  have 4: "StatusCode status_500 \<noteq> 200" by (simp add: status_500_def)
  from Post_fails_unless_status_OK [OF 1 2 3 4]
  obtain msg where m: "Post ?env test_cfg 0 ?r = Inl msg"
    and "case ReadErr (Body status_500) of None \<Rightarrow> sublist (Data (Body status_500)) msg
         | Some e \<Rightarrow> sublist e msg"
    by blast
  then have b: "sublist (Data (Body status_500)) msg"
    by (simp add: status_500_def)
  from m have "msg = ''API request failed with status code: 500, response body: overloaded''"
    by (simp only: Post_server_500 sum.inject)
  with b have "sublist (Data (Body status_500))
                 ''API request failed with status code: 500, response body: overloaded''"
    by (simp only:)
  with 1 2 3 4 show ?thesis
    by (simp only: Post_server_500 simp_thms)
qed

text \<open>
  C8 as stated fails. The server replies with status 500 and the connection breaks after
  the bytes \<open>Overl\<close> of the body: the error that \<open>Post\<close> returns names the status and the
  read error, and the bytes of the body are not in it.
\<close>

theorem Post_error_without_body_counterexample:
  "StatusCode status_500_cut = 500
   \<and> Data (Body status_500_cut) = ''Overl''
   \<and> Post (server status_500_cut (Inl ''unused'') :: json_object env) test_cfg 0
        (new_request [user_message ''Hello there''] [postal_codes])
       = Inl ''API request failed with status code: 500, failed to read response body: unexpected EOF''
   \<and> \<not> sublist (Data (Body status_500_cut))
        ''API request failed with status code: 500, failed to read response body: unexpected EOF''"
proof -
  have 1: "StatusCode status_500_cut = 500" by (simp add: status_500_cut_def)
  have 2: "Data (Body status_500_cut) = ''Overl''" by (simp add: status_500_cut_def)
  from 1 2 not_sublist_cut show ?thesis
    by (simp only: Post_server_500_cut simp_thms)
qed

subsection \<open>Only the first block counts\<close>

text \<open>
  C9. After a decoded reply the conversation depends on the first content block only: it
  is the conversation with the user's message, to which \<open>AppendResponse\<close> is applied for
  the first block, whatever follows that block (with no block at all, the user's message
  is the last one). When the first block is a \<open>tool_use\<close> block nothing is appended
  after the user's message, and the turn posts the one request it was given.
\<close>

theorem only_first_block_reaches_conversation:
  assumes "Post env cfg (length (posted s)) (new_request (conv s @ [user_message input]) tools) = Inr resp"
  shows "conv (snd (turn env cfg tools input s)) =
           (case Response.Content resp of
              [] \<Rightarrow> conv s @ [user_message input]
            | b # bs \<Rightarrow> AppendResponse (conv s @ [user_message input]) b)
       \<and> (\<forall>b bs. Response.Content resp = b # bs \<and> ResponseMessage.Type b = toolUse
             \<longrightarrow> conv (snd (turn env cfg tools input s)) = conv s @ [user_message input])
       \<and> posted (snd (turn env cfg tools input s)) =
           posted s @ [new_request (conv s @ [user_message input]) tools]"
proof (cases "Response.Content resp")
  case Nil
  with assms show ?thesis by (simp add: turn_empty)
next
  case (Cons msg rest)
  with assms show ?thesis
    using text_type_neq_toolUse by (auto simp: turn_reply AppendResponse_def)
qed

text \<open>
  A turn for C9: the reply is a tool call followed by a text block; neither is appended,
  though the text block alone would have been.
\<close>

theorem only_first_block_reaches_conversation_witness:
  "Post (server status_200 (Inr (message_of [atlanta, text_block ''30301'']))) test_cfg
        (length (posted (start :: json_object state)))
        (new_request (conv (start :: json_object state) @ [user_message ''Atlanta?'']) [postal_codes])
     = Inr (message_of [atlanta, text_block ''30301''])
   \<and> ResponseMessage.Type atlanta = toolUse
   \<and> snd (turn (server status_200 (Inr (message_of [atlanta, text_block ''30301'']))) test_cfg
            [postal_codes] ''Atlanta?'' start) =
       \<lparr>conv = [user_message ''Atlanta?''],
        stdout = [Printf_Claude [atlanta, text_block ''30301''] 10 5],
        posted = [new_request [user_message ''Atlanta?''] [postal_codes]]\<rparr>"
proof -
  let ?env = "server status_200 (Inr (message_of [atlanta, text_block ''30301'']))"
  have 1: "Post ?env test_cfg (length (posted (start :: json_object state)))
        (new_request (conv (start :: json_object state) @ [user_message ''Atlanta?'']) [postal_codes])
     = Inr (message_of [atlanta, text_block ''30301''])"
    by simp
  have 2: "ResponseMessage.Type atlanta = toolUse"
    by (simp add: atlanta_def tool_block_def)
  have 3: "Response.Content (message_of [atlanta, text_block ''30301'']) = [atlanta, text_block ''30301'']"
    by (simp add: message_of_def)
  note t = only_first_block_reaches_conversation [OF 1]
  from t 2 3 have "conv (snd (turn ?env test_cfg [postal_codes] ''Atlanta?'' start)) =
                     conv (start :: json_object state) @ [user_message ''Atlanta?'']"
    by blast
  then have c: "conv (snd (turn ?env test_cfg [postal_codes] ''Atlanta?'' start)) = [user_message ''Atlanta?'']"
    by (simp add: start_def)
  from t have "posted (snd (turn ?env test_cfg [postal_codes] ''Atlanta?'' start)) =
                 posted (start :: json_object state) @
                 [new_request (conv (start :: json_object state) @ [user_message ''Atlanta?'']) [postal_codes]]"
    by blast
  then have p: "posted (snd (turn ?env test_cfg [postal_codes] ''Atlanta?'' start)) =
              [new_request [user_message ''Atlanta?''] [postal_codes]]"
    by (simp add: start_def)
  have o: "stdout (snd (turn ?env test_cfg [postal_codes] ''Atlanta?'' start)) =
             [Printf_Claude [atlanta, text_block ''30301''] 10 5]"
    by (simp add: turn_def Let_def emit_def start_def message_of_def)
  from c p o have "snd (turn ?env test_cfg [postal_codes] ''Atlanta?'' start) =
       \<lparr>conv = [user_message ''Atlanta?''],
        stdout = [Printf_Claude [atlanta, text_block ''30301''] 10 5],
        posted = [new_request [user_message ''Atlanta?''] [postal_codes]]\<rparr>"
    by (cases "snd (turn ?env test_cfg [postal_codes] ''Atlanta?'' start)") simp
  with 1 2 show ?thesis by blast
qed

subsection \<open>End of input\<close>

text \<open>
  C10. When standard input is exhausted at the prompt, \<open>Converse\<close> returns at once, though
  no exit token was read: the prompt has been printed, no message is appended and no
  request is posted.
\<close>

theorem Converse_end_of_input:
  "Converse env cfg [] tools s = (Returned, s\<lparr>stdout := stdout s @ [Print ''You: '']\<rparr>)
   \<and> conv (snd (Converse env cfg [] tools s)) = conv s
   \<and> posted (snd (Converse env cfg [] tools s)) = posted s"
  by (simp add: emit_def)

end
